theory Spec2Isabelle
  imports Complex_Main "HOL-Library.Char_ord" "HOL-Library.List_Lexorder"
begin

section \<open>Tables, cells and errors\<close>

text \<open>
  The program of \<^verbatim>\<open>preprocessing.py\<close> works on pandas tables. A cell of a table is a
  number, the missing value NaN, or a string (the metadata columns). Numbers are exact
  reals here: rounding of floating-point arithmetic is outside this model. A column label
  is a string (as loaded) or an integer year (after renaming); a row label is an integer.

  A table is its list of column labels and its rows in order, each row with its label and
  its cells in column order. A column of a table (a pandas Series over the row labels) is
  a list of labelled cells; a row handed to a function (a Series over the column labels)
  is a list of cells paired with their column labels.

  Every raise of the source is a value \<open>Inl e\<close> of the result.
\<close>

datatype error = KeyError | IndexError | ValueError | TypeError | AttributeError

datatype cell = Num real | NaN | Str string

datatype clabel = Name string | Year int

type_synonym rlabel = int

record frame =
  columns :: "clabel list"
  rws :: "(rlabel \<times> cell list) list"

type_synonym series = "(rlabel \<times> cell) list"

type_synonym rowser = "(clabel \<times> cell) list"

text \<open>Python's \<open>LookupError\<close> is the base class of \<open>KeyError\<close> and \<open>IndexError\<close>.\<close>

definition lookup_error_class :: "error \<Rightarrow> bool" where
  "lookup_error_class e = (e = KeyError \<or> e = IndexError)"

text \<open>Sequencing of steps that may raise: the first error ends the computation.\<close>

definition ebind :: "error + 'a \<Rightarrow> ('a \<Rightarrow> error + 'b) \<Rightarrow> error + 'b" where
  "ebind m f = (case m of Inl e \<Rightarrow> Inl e | Inr x \<Rightarrow> f x)"

fun traverse :: "('a \<Rightarrow> error + 'b) \<Rightarrow> 'a list \<Rightarrow> error + 'b list" where
  "traverse f [] = Inr []"
| "traverse f (x # xs) =
     ebind (f x) (\<lambda>y. ebind (traverse f xs) (\<lambda>ys. Inr (y # ys)))"

text \<open>A table is well formed when every row has one cell per column.\<close>

definition wf_frame :: "frame \<Rightarrow> bool" where
  "wf_frame X = list_all (\<lambda>lr. length (snd lr) = length (columns X)) (rws X)"

definition index :: "frame \<Rightarrow> rlabel list" where
  "index X = map fst (rws X)"

subsection \<open>Positions and slices\<close>

text \<open>
  \<open>py_index n k\<close> is the position Python reads at index \<open>k\<close> of a sequence of
  length \<open>n\<close> (negative indices count from the end, out of range raises);
  \<open>slice_stop n s\<close> is the number of positions the slice \<open>[:s]\<close> keeps.
\<close>

definition py_index :: "nat \<Rightarrow> int \<Rightarrow> error + nat" where
  "py_index n k =
     (let j = (if k < 0 then int n + k else k)
      in if 0 \<le> j \<and> j < int n then Inr (nat j) else Inl IndexError)"

definition slice_stop :: "nat \<Rightarrow> int \<Rightarrow> nat" where
  "slice_stop n s = (if s < 0 then nat (int n + s) else min (nat s) n)"

text \<open>\<open>X.iloc[:, :s]\<close>, \<open>X.iloc[:, k]\<close>, \<open>X[name]\<close> and \<open>row[name]\<close>.\<close>

definition iloc_cols_upto :: "frame \<Rightarrow> int \<Rightarrow> frame" where
  "iloc_cols_upto X s =
     (let m = slice_stop (length (columns X)) s
      in \<lparr>columns = take m (columns X), rws = map (\<lambda>(l, r). (l, take m r)) (rws X)\<rparr>)"

definition col_at :: "frame \<Rightarrow> nat \<Rightarrow> series" where
  "col_at X j = map (\<lambda>(l, r). (l, r ! j)) (rws X)"

definition iloc_col :: "frame \<Rightarrow> int \<Rightarrow> error + series" where
  "iloc_col X k = ebind (py_index (length (columns X)) k) (\<lambda>j. Inr (col_at X j))"

definition getitem :: "rowser \<Rightarrow> clabel \<Rightarrow> error + cell" where
  "getitem row k = (case map_of row k of None \<Rightarrow> Inl KeyError | Some v \<Rightarrow> Inr v)"

definition getcol :: "frame \<Rightarrow> clabel \<Rightarrow> error + series" where
  "getcol X k =
     traverse (\<lambda>(l, r). ebind (getitem (zip (columns X) r) k) (\<lambda>v. Inr (l, v))) (rws X)"

text \<open>
  \<open>training_set.loc[submit_rows_index]\<close>: the rows with the given labels, in the order
  of the labels; a label no row has raises \<open>KeyError\<close>. The result is a new table.
\<close>

definition loc :: "frame \<Rightarrow> rlabel list \<Rightarrow> error + frame" where
  "loc T idx =
     ebind (traverse (\<lambda>l. case filter (\<lambda>lr. fst lr = l) (rws T) of
                              [] \<Rightarrow> Inl KeyError
                            | rs \<Rightarrow> Inr rs) idx)
           (\<lambda>rss. Inr (T\<lparr>rws := concat rss\<rparr>))"

section \<open>Continent Classifier\<close>

text \<open>
  Modelled from the spec: the standardized country registry
  (\<^verbatim>\<open>pycountry.countries.get(name = ...)\<close>) and the alpha-2-to-continent service
  (\<^verbatim>\<open>pycountry_convert.country_alpha2_to_continent_code\<close>) are libraries outside the
  repository. The registry is a finite table from exact names to two-letter codes, the
  service a finite table from codes to continent codes; a name or a code the table does
  not hold fails with a \<open>KeyError\<close>, a LookupError-class condition, as the spec says of
  a country name that cannot be found.
\<close>

type_synonym registry = "string \<rightharpoonup> string"

definition countries_get :: "registry \<Rightarrow> cell \<Rightarrow> error + string" where
  "countries_get reg c =
     (case c of
        Str name \<Rightarrow> (case reg name of None \<Rightarrow> Inl KeyError | Some a \<Rightarrow> Inr a)
      | _ \<Rightarrow> Inl KeyError)"

definition country_alpha2_to_continent_code :: "(string \<rightharpoonup> string) \<Rightarrow> string \<Rightarrow> error + string" where
  "country_alpha2_to_continent_code tbl a =
     (case tbl a of None \<Rightarrow> Inl KeyError | Some c \<Rightarrow> Inr c)"

definition names_NA :: "string list" where
  "names_NA = [''Bahamas, The'', ''Curacao'', ''Sint Maarten (Dutch part)'',
     ''St. Kitts and Nevis'', ''St. Lucia'', ''St. Martin (French part)'',
     ''St. Vincent and the Grenadines'', ''Virgin Islands (U.S.)'']"

definition names_EU :: "string list" where
  "names_EU = [''Channel Islands'', ''Czech Republic'', ''Faeroe Islands'', ''Kosovo'',
     ''Macedonia, FYR'', ''Moldova'', ''Slovak Republic'']"

definition names_AS :: "string list" where
  "names_AS = [''Hong Kong SAR, China'', ''Iran, Islamic Rep.'', ''Korea, Dem. Rep.'',
     ''Korea, Rep.'', ''Kyrgyz Republic'', ''Lao PDR'', ''Macao SAR, China'',
     ''Micronesia, Fed. Sts.'', ''Timor-Leste'', ''Vietnam'', ''West Bank and Gaza'',
     ''Yemen, Rep.'']"

definition names_AF :: "string list" where
  "names_AF = [''Congo, Dem. Rep.'', ''Congo, Rep.'', ''Cote d'Ivoire'',
     ''Egypt, Arab Rep.'', ''Tanzania'', ''Gambia, The'']"

definition names_SA :: "string list" where
  "names_SA = [''Bolivia'', ''Venezuela, RB'']"

text \<open>
  \<open>get_continent\<close>, branch by branch. \<open>x in [...]\<close> compares with \<open>==\<close>, which a
  cell that is not a string satisfies for none of the names.
\<close>

definition get_continent :: "registry \<Rightarrow> (string \<rightharpoonup> string) \<Rightarrow> rowser \<Rightarrow> error + string" where
  "get_continent reg a2c row =
     ebind (getitem row (Name ''Country Name'')) (\<lambda>c.
       if c \<in> set (map Str names_NA) then Inr ''NA''
       else if c \<in> set (map Str names_EU) then Inr ''EU''
       else if c \<in> set (map Str names_AS) then Inr ''AS''
       else if c \<in> set (map Str names_AF) then Inr ''AF''
       else if c \<in> set (map Str names_SA) then Inr ''SA''
       else ebind (countries_get reg c) (country_alpha2_to_continent_code a2c))"

text \<open>
  \<open>preprocess_continents\<close>: \<open>X['continent'] = X.apply(get_continent, axis=1)\<close> on a
  copy of the table. Assigning a column that the table does not have appends it as the
  last column; one it has is overwritten in place.
\<close>

definition setitem_col :: "frame \<Rightarrow> clabel \<Rightarrow> cell list \<Rightarrow> frame" where
  "setitem_col X k vs =
     (if k \<in> set (columns X)
      then (let j = length (takeWhile (\<lambda>c. c \<noteq> k) (columns X))
            in X\<lparr>rws := map (\<lambda>((l, r), v). (l, r[j := v])) (zip (rws X) vs)\<rparr>)
      else \<lparr>columns = columns X @ [k],
            rws = map (\<lambda>((l, r), v). (l, r @ [v])) (zip (rws X) vs)\<rparr>)"

definition preprocess_continents :: "registry \<Rightarrow> (string \<rightharpoonup> string) \<Rightarrow> frame \<Rightarrow> error + frame" where
  "preprocess_continents reg a2c training_set =
     ebind (traverse (\<lambda>(l, r). get_continent reg a2c (zip (columns training_set) r))
              (rws training_set))
       (\<lambda>cs. Inr (setitem_col training_set (Name ''continent'') (map Str cs)))"

section \<open>Row Selector/Reshaper\<close>

text \<open>
  \<open>int(x.split(' ')[0])\<close>: the label up to its first space, read as a decimal integer.
  Python's \<open>int\<close> strips surrounding whitespace, takes an optional sign, and then
  digits in which single underscores may separate digits; anything else is a
  \<open>ValueError\<close>. Strings are byte strings here, so only ASCII digits and whitespace
  are read. A label that is already an integer has no \<open>split\<close>: \<open>AttributeError\<close>.
\<close>

definition is_space :: "char \<Rightarrow> bool" where
  "is_space c = (c \<in> set [CHR '' '', CHR 0x09, CHR 0x0A, CHR 0x0B, CHR 0x0C, CHR 0x0D,
                          CHR 0x1C, CHR 0x1D, CHR 0x1E, CHR 0x1F])"

definition strip :: "string \<Rightarrow> string" where
  "strip s = rev (dropWhile is_space (rev (dropWhile is_space s)))"

definition digit_val :: "char \<Rightarrow> nat option" where
  "digit_val c = (if CHR ''0'' \<le> c \<and> c \<le> CHR ''9'' then Some (of_char c - 48) else None)"

fun parse_digits :: "nat \<Rightarrow> bool \<Rightarrow> string \<Rightarrow> nat option" where
  "parse_digits acc d [] = (if d then Some acc else None)"
| "parse_digits acc d (c # cs) =
     (if c = CHR ''_'' then (if d then parse_digits acc False cs else None)
      else (case digit_val c of
              None \<Rightarrow> None
            | Some v \<Rightarrow> parse_digits (10 * acc + v) True cs))"

definition py_int :: "string \<Rightarrow> error + int" where
  "py_int s =
     (case strip s of
        [] \<Rightarrow> Inl ValueError
      | c # cs \<Rightarrow>
          (if c = CHR ''-'' then (case parse_digits 0 False cs of
                                    None \<Rightarrow> Inl ValueError | Some n \<Rightarrow> Inr (- int n))
           else if c = CHR ''+'' then (case parse_digits 0 False cs of
                                    None \<Rightarrow> Inl ValueError | Some n \<Rightarrow> Inr (int n))
           else (case parse_digits 0 False (c # cs) of
                   None \<Rightarrow> Inl ValueError | Some n \<Rightarrow> Inr (int n))))"

definition year_of_label :: "clabel \<Rightarrow> error + clabel" where
  "year_of_label x =
     (case x of
        Year y \<Rightarrow> Inl AttributeError
      | Name s \<Rightarrow> ebind (py_int (takeWhile (\<lambda>c. c \<noteq> CHR '' '') s)) (\<lambda>y. Inr (Year y)))"

text \<open>\<open>X.rename(f, axis=1)\<close>: a new table with every column label mapped by \<open>f\<close>.\<close>

definition rename :: "(clabel \<Rightarrow> error + clabel) \<Rightarrow> frame \<Rightarrow> error + frame" where
  "rename f X = ebind (traverse f (columns X)) (\<lambda>cs. Inr (X\<lparr>columns := cs\<rparr>))"

text \<open>
  \<open>preprocess_simple\<close>. \<open>years_ahead\<close> is a number of years, a natural number; the
  slice \<open>[:-1*years_ahead]\<close> is the slice \<open>[:0]\<close> when it is 0.
\<close>

definition preprocess_simple :: "frame \<Rightarrow> rlabel list \<Rightarrow> nat \<Rightarrow> error + frame \<times> series" where
  "preprocess_simple training_set submit_rows_index years_ahead =
     ebind (loc training_set submit_rows_index) (\<lambda>X.
     ebind (rename year_of_label (iloc_cols_upto X (- 3))) (\<lambda>X.
     ebind (iloc_col X (- 1)) (\<lambda>Y.
       Inr (iloc_cols_upto X (- int years_ahead), Y))))"

section \<open>Average-Table Imputer\<close>

text \<open>
  The average table \<^verbatim>\<open>ind_yr_cont_avgs.json\<close> is a dictionary whose keys are the
  printed triples \<open>str((ind, cont, year))\<close>; the triple itself stands for its printed
  form here. A key the dictionary does not hold raises \<open>KeyError\<close>.
\<close>

type_synonym cont_avgs = "(cell \<times> cell \<times> clabel) \<rightharpoonup> cell"

definition rename_cols :: "clabel \<Rightarrow> error + clabel" where
  "rename_cols colname =
     (if colname \<notin> set [Name ''Country Name'', Name ''Series Code'', Name ''Series Name'',
                         Name ''continent'']
      then year_of_label colname
      else Inr colname)"

definition isna :: "cell \<Rightarrow> bool" where
  "isna v = (v = NaN)"

text \<open>
  \<open>impute_indyrcontavg\<close> is applied to every entry \<open>r\<close> of a row: \<open>r.name\<close> is the
  column label of the entry and \<open>r['value']\<close> its cell.
\<close>

definition impute_indyrcontavg :: "cont_avgs \<Rightarrow> clabel \<times> cell \<Rightarrow> cell \<Rightarrow> cell \<Rightarrow> error + cell" where
  "impute_indyrcontavg avgs r ind cont =
     (if isna (snd r)
      then (case avgs (ind, cont, fst r) of None \<Rightarrow> Inl KeyError | Some v \<Rightarrow> Inr v)
      else Inr (snd r))"

text \<open>\<open>X.loc[ix] = values\<close>: every row labelled \<open>ix\<close> gets the values.\<close>

definition loc_set :: "frame \<Rightarrow> rlabel \<Rightarrow> cell list \<Rightarrow> frame" where
  "loc_set X ix vals = X\<lparr>rws := map (\<lambda>(l, r). if l = ix then (l, vals) else (l, r)) (rws X)\<rparr>"

text \<open>
  The loop \<open>for ix, row in X.iterrows()\<close> of \<open>preprocess_with_continent_interpolation\<close>:
  the rows are those of the table as the loop starts, the writes go to the table.
  \<open>impute_row\<close> is the body of the loop up to \<open>df['value']\<close>, the imputed entries
  of the row: \<open>df.apply(impute_indyrcontavg, axis = 1, args=(ind,cont))\<close> visits every
  entry of the row, the metadata entries too.
\<close>

definition impute_row :: "cont_avgs \<Rightarrow> clabel list \<Rightarrow> cell list \<Rightarrow> error + cell list" where
  "impute_row avgs cols row =
     ebind (getitem (zip cols row) (Name ''Series Code'')) (\<lambda>ind.
     ebind (getitem (zip cols row) (Name ''continent'')) (\<lambda>cont.
       traverse (\<lambda>r. impute_indyrcontavg avgs r ind cont) (zip cols row)))"

fun impute_loop :: "cont_avgs \<Rightarrow> clabel list \<Rightarrow> (rlabel \<times> cell list) list \<Rightarrow> frame \<Rightarrow> error + frame" where
  "impute_loop avgs cols [] X = Inr X"
| "impute_loop avgs cols ((ix, row) # rest) X =
     ebind (impute_row avgs cols row) (\<lambda>df. impute_loop avgs cols rest (loc_set X ix df))"

definition preprocess_with_continent_interpolation ::
  "registry \<Rightarrow> (string \<rightharpoonup> string) \<Rightarrow> cont_avgs \<Rightarrow> frame \<Rightarrow> rlabel list \<Rightarrow> nat \<Rightarrow> error + frame \<times> series" where
  "preprocess_with_continent_interpolation reg a2c avgs training_set submit_rows_index years_ahead =
     ebind (preprocess_continents reg a2c training_set) (\<lambda>X_with_cont.
     ebind (loc X_with_cont submit_rows_index) (\<lambda>X_submit.
     ebind (rename rename_cols X_submit) (\<lambda>X.
     ebind (impute_loop avgs (columns X) (rws X) X) (\<lambda>X.
     ebind (iloc_col (iloc_cols_upto X (- 4)) (- 1)) (\<lambda>Y.
       Inr (iloc_cols_upto (iloc_cols_upto X (- 4)) (- int years_ahead), Y))))))"

section \<open>Median/Recent-Value Imputer and Interpolator\<close>

text \<open>
  \<open>s.isnull()\<close>, \<open>np.isnan(v)\<close> (a string is not a number: \<open>TypeError\<close>) and the
  elementwise \<open>==\<close>, which no NaN satisfies.
\<close>

definition isnull :: "cell \<Rightarrow> bool" where
  "isnull v = (v = NaN)"

definition np_isnan :: "cell \<Rightarrow> error + bool" where
  "np_isnan v = (case v of Num x \<Rightarrow> Inr False | NaN \<Rightarrow> Inr True | Str s \<Rightarrow> Inl TypeError)"

definition py_eq :: "cell \<Rightarrow> cell \<Rightarrow> bool" where
  "py_eq a b = (a = b \<and> a \<noteq> NaN)"

definition is_str :: "cell \<Rightarrow> bool" where
  "is_str v = (case v of Str s \<Rightarrow> True | _ \<Rightarrow> False)"

definition the_str :: "cell \<Rightarrow> string" where
  "the_str v = (case v of Str s \<Rightarrow> s | _ \<Rightarrow> [])"

definition the_num :: "cell \<Rightarrow> real" where
  "the_num v = (case v of Num x \<Rightarrow> x | _ \<Rightarrow> 0)"

text \<open>
  \<open>np.unique\<close> of the indicator names: the distinct names in sorted order. The names of
  a table are strings; a column that mixes strings with numbers or NaN cannot be sorted
  (\<open>TypeError\<close>), and a column of numbers only is not a column of names: the model
  reports it as \<open>TypeError\<close> too.
\<close>

definition np_unique :: "series \<Rightarrow> error + cell list" where
  "np_unique s =
     (if list_all is_str (map snd s)
      then Inr (map Str (sort (remdups (map (\<lambda>lv. the_str (snd lv)) s))))
      else Inl TypeError)"

text \<open>
  \<open>np.median\<close> of the values that are not missing: NaN for no value (numpy warns and
  returns nan), the middle value of the sorted values, or the mean of the two middle ones.
\<close>

definition np_median :: "cell list \<Rightarrow> error + cell" where
  "np_median vs =
     (if list_ex is_str vs then Inl TypeError
      else (let xs = sort (map the_num vs); n = length xs
            in if n = 0 then Inr NaN
               else if odd n then Inr (Num (xs ! (n div 2)))
               else Inr (Num ((xs ! (n div 2 - 1) + xs ! (n div 2)) / 2))))"

text \<open>\<open>s.loc[names == ind]\<close>: the entries of \<open>s\<close> at the rows whose name is \<open>ind\<close>.\<close>

definition select_mask :: "series \<Rightarrow> series \<Rightarrow> cell \<Rightarrow> series" where
  "select_mask s names ind = map fst (filter (\<lambda>p. py_eq (snd (snd p)) ind) (zip s names))"

text \<open>
  In \<open>preprocess_avg_NANs\<close> the renamed copy of the selected rows is one table in
  memory, of which \<open>Y = X.iloc[:, -1]\<close> and \<open>X = X.iloc[:, :-1*years_ahead]\<close> are
  views: \<open>Y\<close> shows its last column and \<open>X\<close> its first \<open>m\<close> columns. The model
  threads that one table \<open>B\<close> through the loops; a write through \<open>X\<close> is a write
  to \<open>B\<close>, and \<open>X\<close> and \<open>Y\<close> are read off \<open>B\<close> at the end.

  \<open>X[X.columns[-k]][i]\<close> reads the cell of the row labelled \<open>i\<close> in the column at
  position \<open>-k\<close> of \<open>X\<close>; with several rows of that label it is not one value, and
  \<open>not(np.isnan(...))\<close> raises \<open>ValueError\<close>. \<open>X[X.columns[-1]][i] = v\<close> writes the
  cell of every row labelled \<open>i\<close>.
\<close>

definition get_cell :: "frame \<Rightarrow> nat \<Rightarrow> rlabel \<Rightarrow> error + cell" where
  "get_cell B c i =
     (case filter (\<lambda>lr. fst lr = i) (rws B) of
        [] \<Rightarrow> Inl KeyError
      | [lr] \<Rightarrow> Inr (snd lr ! c)
      | _ \<Rightarrow> Inl ValueError)"

definition set_cell :: "frame \<Rightarrow> nat \<Rightarrow> rlabel \<Rightarrow> cell \<Rightarrow> frame" where
  "set_cell B c i v =
     B\<lparr>rws := map (\<lambda>(l, r). if l = i then (l, r[c := v]) else (l, r)) (rws B)\<rparr>"

text \<open>
  The inner loop \<open>for recent_index in np.arange(2,10)\<close> for the row labelled \<open>i\<close>:
  the first value that is not NaN is written to the last column of \<open>X\<close>, and the loop
  breaks. \<open>X.columns[-recent_index]\<close> raises \<open>IndexError\<close> when \<open>X\<close> has fewer
  columns.
\<close>

fun scan_recent :: "nat \<Rightarrow> rlabel \<Rightarrow> nat list \<Rightarrow> frame \<Rightarrow> error + frame" where
  "scan_recent m i [] B = Inr B"
| "scan_recent m i (recent_index # rest) B =
     ebind (py_index m (- int recent_index)) (\<lambda>c.
     ebind (get_cell B c i) (\<lambda>recent_val.
     ebind (np_isnan recent_val) (\<lambda>nan.
       if \<not> nan
       then ebind (py_index m (- 1)) (\<lambda>c1. Inr (set_cell B c1 i recent_val))
       else scan_recent m i rest B)))"

text \<open>The loop \<open>for i in NAN_training_indices_with_indicator\<close>.\<close>

fun fill_nans :: "nat \<Rightarrow> cell \<Rightarrow> rlabel list \<Rightarrow> frame \<Rightarrow> error + frame" where
  "fill_nans m median_of_others [] B = Inr B"
| "fill_nans m median_of_others (i # rest) B =
     ebind (py_index m (- 1)) (\<lambda>c1.
     ebind (scan_recent m i [2..<10] (set_cell B c1 i median_of_others))
       (fill_nans m median_of_others rest))"

text \<open>
  The body of \<open>for ind in indicators\<close>. \<open>names\<close> is \<open>full_training_rows['Series Name']\<close>,
  \<open>lastc\<close> the position of the last column of \<open>X\<close> (\<open>last_column_train\<close> is a view
  of that column), \<open>last_column_all\<close> the column \<open>training_set.iloc[:,-5]\<close>.
\<close>

definition fill_indicator ::
  "frame \<Rightarrow> series \<Rightarrow> series \<Rightarrow> nat \<Rightarrow> nat \<Rightarrow> cell \<Rightarrow> frame \<Rightarrow> error + frame" where
  "fill_indicator training_set names last_column_all m lastc ind B =
     (let training_rows_with_indicator = select_mask (col_at B lastc) names ind
      in ebind (getcol training_set (Name ''Series Name'')) (\<lambda>all_names.
         let all_rows_with_indicator = select_mask last_column_all all_names ind;
             NAN_training_indices_with_indicator =
               map fst (filter (\<lambda>lv. isnull (snd lv)) training_rows_with_indicator)
         in ebind (np_median (filter (\<lambda>v. \<not> isnull v) (map snd all_rows_with_indicator)))
              (\<lambda>median_of_others.
                 fill_nans m median_of_others NAN_training_indices_with_indicator B)))"

fun fill_indicators ::
  "frame \<Rightarrow> series \<Rightarrow> series \<Rightarrow> nat \<Rightarrow> nat \<Rightarrow> cell list \<Rightarrow> frame \<Rightarrow> error + frame" where
  "fill_indicators training_set names last_column_all m lastc [] B = Inr B"
| "fill_indicators training_set names last_column_all m lastc (ind # rest) B =
     ebind (fill_indicator training_set names last_column_all m lastc ind B)
       (fill_indicators training_set names last_column_all m lastc rest)"

text \<open>
  \<open>row.interpolate(method = 'linear', limit = 50, limit_direction = 'backward')\<close> is
  pandas': the values count as equally spaced. A missing value is filled when a value
  that is not missing follows it within \<open>limit\<close> positions: with the value on the
  straight line between the nearest values before and after it, or with the value after
  it when none comes before. Missing values after the last value stay missing, and so do
  those further than \<open>limit\<close> before the next value. A row holding a string has no
  numeric type and is not interpolated (\<open>TypeError\<close>).
\<close>

definition valid :: "cell list \<Rightarrow> nat \<Rightarrow> bool" where
  "valid xs q = (xs ! q \<noteq> NaN)"

definition next_valid :: "cell list \<Rightarrow> nat \<Rightarrow> nat option" where
  "next_valid xs p = find (valid xs) [Suc p..<length xs]"

definition prev_valid :: "cell list \<Rightarrow> nat \<Rightarrow> nat option" where
  "prev_valid xs p = find (valid xs) (rev [0..<p])"

definition interp_at :: "nat \<Rightarrow> cell list \<Rightarrow> nat \<Rightarrow> cell" where
  "interp_at limit xs p =
     (if xs ! p \<noteq> NaN then xs ! p
      else (case next_valid xs p of
              None \<Rightarrow> NaN
            | Some r \<Rightarrow>
                if limit < r - p then NaN
                else (case prev_valid xs p of
                        None \<Rightarrow> xs ! r
                      | Some l \<Rightarrow>
                          Num (the_num (xs ! l)
                               + (the_num (xs ! r) - the_num (xs ! l)) / real (r - l)
                                 * real (p - l)))))"

definition interpolate :: "nat \<Rightarrow> cell list \<Rightarrow> error + cell list" where
  "interpolate limit xs =
     (if list_ex is_str xs then Inl TypeError
      else Inr (map (interp_at limit xs) [0..<length xs]))"

text \<open>
  The loop \<open>for index, row in X.iterrows()\<close>: the row at each position of \<open>X\<close> in
  turn, interpolated, is written by \<open>X.loc[index] = row_interp.values\<close> to the cells
  that \<open>X\<close> shows of every row labelled \<open>index\<close>.
\<close>

definition loc_set_view :: "nat \<Rightarrow> frame \<Rightarrow> rlabel \<Rightarrow> cell list \<Rightarrow> frame" where
  "loc_set_view m B ix vals =
     B\<lparr>rws := map (\<lambda>(l, r). if l = ix then (l, vals @ drop m r) else (l, r)) (rws B)\<rparr>"

fun interp_loop :: "nat \<Rightarrow> nat list \<Rightarrow> frame \<Rightarrow> error + frame" where
  "interp_loop m [] B = Inr B"
| "interp_loop m (k # ks) B =
     ebind (interpolate 50 (take m (snd (rws B ! k)))) (\<lambda>row_interp.
       interp_loop m ks (loc_set_view m B (fst (rws B ! k)) row_interp))"

definition preprocess_avg_NANs :: "frame \<Rightarrow> rlabel list \<Rightarrow> nat \<Rightarrow> error + frame \<times> series" where
  "preprocess_avg_NANs training_set submit_rows_index years_ahead =
     ebind (loc training_set submit_rows_index) (\<lambda>full_training_rows.
     ebind (rename year_of_label (iloc_cols_upto full_training_rows (- 3))) (\<lambda>B.
     ebind (py_index (length (columns B)) (- 1)) (\<lambda>y.
     let m = slice_stop (length (columns B)) (- int years_ahead) in
     ebind (getcol full_training_rows (Name ''Series Name'')) (\<lambda>names.
     ebind (np_unique names) (\<lambda>indicators.
     ebind (py_index m (- 1)) (\<lambda>lastc.
     ebind (iloc_col training_set (- 5)) (\<lambda>last_column_all.
     ebind (fill_indicators training_set names last_column_all m lastc indicators B) (\<lambda>B.
     ebind (interp_loop m [0..<length (rws B)] B) (\<lambda>B.
       Inr (iloc_cols_upto B (- int years_ahead), col_at B y))))))))))"

subsection \<open>Frame conditions\<close>

text \<open>
  \<open>unchanged_outside W B B'\<close>: the tables \<open>B\<close> and \<open>B'\<close> have the same columns,
  the same row labels in the same order and rows of the same lengths, and they agree on
  every cell of a column position outside \<open>W\<close>.
\<close>

definition unchanged_outside :: "nat set \<Rightarrow> frame \<Rightarrow> frame \<Rightarrow> bool" where
  "unchanged_outside W B B' =
     (columns B' = columns B \<and> map fst (rws B') = map fst (rws B)
      \<and> (\<forall>k < length (rws B).
            length (snd (rws B' ! k)) = length (snd (rws B ! k))
            \<and> (\<forall>j. j \<notin> W \<longrightarrow> snd (rws B' ! k) ! j = snd (rws B ! k) ! j)))"


section \<open>Example tables\<close>

text \<open>Small tables on which the theorems below are evaluated.\<close>

definition ex_table :: frame where
  "ex_table =
     \<lparr>columns = [Name ''2005 [YR2005]'', Name ''2006 [YR2006]'', Name ''2007 [YR2007]'',
                 Name ''Country Name'', Name ''Series Code'', Name ''Series Name''],
      rws = [(7, [Num 10, Num 20, Num 30, Str ''Peru'', Str ''ny.gdp'', Str ''GDP'']),
             (8, [Num 1, NaN, Num 3, Str ''Kosovo'', Str ''ny.gdp'', Str ''GDP''])]\<rparr>"

definition ex_years :: frame where
  "ex_years = \<lparr>columns = [Year 2005, Year 2006, Year 2007],
               rws = [(7, [Num 10, Num 20, Num 30])]\<rparr>"

definition ex_reg :: registry where
  "ex_reg = [''Peru'' \<mapsto> ''PE'']"

definition ex_a2c :: "string \<rightharpoonup> string" where
  "ex_a2c = [''PE'' \<mapsto> ''SA'']"

definition ex_avgs :: cont_avgs where
  "ex_avgs = [(Str ''ny.gdp'', Str ''EU'', Year 2006) \<mapsto> Num 2]"

definition ex_selected :: frame where
  "ex_selected =
     \<lparr>columns = [Name ''2005 [YR2005]'', Name ''2006 [YR2006]'', Name ''2007 [YR2007]'',
                 Name ''Country Name'', Name ''Series Code'', Name ''Series Name''],
      rws = [(7, [Num 10, Num 20, Num 30, Str ''Peru'', Str ''ny.gdp'', Str ''GDP''])]\<rparr>"

definition ex_tagged :: frame where
  "ex_tagged =
     \<lparr>columns = [Name ''2005 [YR2005]'', Name ''2006 [YR2006]'', Name ''2007 [YR2007]'',
                 Name ''Country Name'', Name ''Series Code'', Name ''Series Name'',
                 Name ''continent''],
      rws = [(7, [Num 10, Num 20, Num 30, Str ''Peru'', Str ''ny.gdp'', Str ''GDP'', Str ''SA'']),
             (8, [Num 1, NaN, Num 3, Str ''Kosovo'', Str ''ny.gdp'', Str ''GDP'', Str ''EU''])]\<rparr>"

definition ex_renamed :: frame where
  "ex_renamed =
     \<lparr>columns = [Year 2005, Year 2006, Year 2007,
                 Name ''Country Name'', Name ''Series Code'', Name ''Series Name'',
                 Name ''continent''],
      rws = [(7, [Num 10, Num 20, Num 30, Str ''Peru'', Str ''ny.gdp'', Str ''GDP'', Str ''SA''])]\<rparr>"


definition ex_renamed2 :: frame where
  "ex_renamed2 =
     \<lparr>columns = [Year 2005, Year 2006, Year 2007,
                 Name ''Country Name'', Name ''Series Code'', Name ''Series Name'',
                 Name ''continent''],
      rws = [(7, [Num 10, Num 20, Num 30, Str ''Peru'', Str ''ny.gdp'', Str ''GDP'', Str ''SA'']),
             (8, [Num 1, NaN, Num 3, Str ''Kosovo'', Str ''ny.gdp'', Str ''GDP'', Str ''EU''])]\<rparr>"

definition ex_imputed2 :: frame where
  "ex_imputed2 =
     \<lparr>columns = [Year 2005, Year 2006, Year 2007,
                 Name ''Country Name'', Name ''Series Code'', Name ''Series Name'',
                 Name ''continent''],
      rws = [(7, [Num 10, Num 20, Num 30, Str ''Peru'', Str ''ny.gdp'', Str ''GDP'', Str ''SA'']),
             (8, [Num 1, Num 2, Num 3, Str ''Kosovo'', Str ''ny.gdp'', Str ''GDP'', Str ''EU''])]\<rparr>"


definition ex_raw :: frame where
  "ex_raw = \<lparr>columns = [Name ''1998 [YR1998]'', Name ''1999 [YR1999]'', Name ''2000 [YR2000]'',
                     Name ''2001 [YR2001]'', Name ''2002 [YR2002]'', Name ''2003 [YR2003]'',
                     Name ''2004 [YR2004]'', Name ''2005 [YR2005]'', Name ''2006 [YR2006]'',
                     Name ''2007 [YR2007]'',
                     Name ''Country Name'', Name ''Series Code'', Name ''Series Name''],
          rws = [(1, [Num 1, NaN, Num 3, NaN, NaN, Num 8, NaN, NaN, NaN, NaN,
                      Str ''A'', Str ''g'', Str ''GDP'']),
                 (2, [NaN, NaN, NaN, NaN, NaN, NaN, NaN, NaN, NaN, Num 4,
                      Str ''B'', Str ''g'', Str ''GDP'']),
                 (3, [NaN, NaN, NaN, NaN, NaN, NaN, NaN, NaN, Num 5, Num 4,
                      Str ''C'', Str ''g'', Str ''GDP'']),
                 (4, [NaN, NaN, NaN, NaN, NaN, NaN, NaN, NaN, Num 7, Num 4,
                      Str ''D'', Str ''g'', Str ''GDP'']),
                 (5, [NaN, NaN, NaN, NaN, NaN, NaN, NaN, NaN, Num 100, Num 4,
                      Str ''A'', Str ''p'', Str ''Pop''])]\<rparr>"

definition ex_feat :: frame where
  "ex_feat = \<lparr>columns =
         [Year 1998, Year 1999, Year 2000, Year 2001, Year 2002, Year 2003,
          Year 2004, Year 2005, Year 2006],
         rws =
           [(1, [Num 1, Num 2, Num 3, Num (14 / 3), Num (19 / 3), Num 8,
                 Num 8, Num 8, Num 8]),
            (2, [Num 6, Num 6, Num 6, Num 6, Num 6, Num 6, Num 6, Num 6,
                 Num 6]),
            (5, [Num 100, Num 100, Num 100, Num 100, Num 100, Num 100,
                 Num 100, Num 100, Num 100])]\<rparr>"

definition ex_rows :: frame where
  "ex_rows = ex_raw\<lparr>rws := [rws ex_raw ! 0, rws ex_raw ! 1, rws ex_raw ! 4]\<rparr>"

definition ex_sel :: frame where
  "ex_sel = \<lparr>columns =
         [Year 1998, Year 1999, Year 2000, Year 2001, Year 2002, Year 2003,
          Year 2004, Year 2005, Year 2006, Year 2007],
         rws = [(1, [Num 1, NaN, Num 3, NaN, NaN, Num 8, NaN, NaN, NaN, NaN]),
                (2, [NaN, NaN, NaN, NaN, NaN, NaN, NaN, NaN, NaN, Num 4]),
                (5, [NaN, NaN, NaN, NaN, NaN, NaN, NaN, NaN, Num 100, Num 4])]\<rparr>"

definition ex_filled :: frame where
  "ex_filled = \<lparr>columns =
         [Year 1998, Year 1999, Year 2000, Year 2001, Year 2002, Year 2003,
          Year 2004, Year 2005, Year 2006, Year 2007],
         rws = [(1, [Num 1, NaN, Num 3, NaN, NaN, Num 8, NaN, NaN, Num 8, NaN]),
                (2, [NaN, NaN, NaN, NaN, NaN, NaN, NaN, NaN, Num 6, Num 4]),
                (5, [NaN, NaN, NaN, NaN, NaN, NaN, NaN, NaN, Num 100, Num 4])]\<rparr>"

definition ex_names :: series where
  "ex_names = [(1, Str ''GDP''), (2, Str ''GDP''), (5, Str ''Pop'')]"

definition ex_last_all :: series where
  "ex_last_all = [(1, NaN), (2, NaN), (3, Num 5), (4, Num 7), (5, Num 100)]"

section \<open>Basic facts\<close>

declare scan_recent.simps [simp del]

lemma ebind_Inr [simp]: "ebind (Inr x) f = f x"
  by (simp add: ebind_def)

lemma ebind_Inl [simp]: "ebind (Inl e) f = Inl e"
  by (simp add: ebind_def)

lemma ebind_eq_Inr:
  "ebind m f = Inr y \<longleftrightarrow> (\<exists>x. m = Inr x \<and> f x = Inr y)"
  by (cases m) simp_all

lemma Str_in_image [simp]: "Str n \<in> Str ` S \<longleftrightarrow> n \<in> S"
  by auto


lemma py_index_last: "py_index n (- 1) = (if 0 < n then Inr (n - 1) else Inl IndexError)"
  by (auto simp: py_index_def Let_def nat_diff_distrib')

lemma slice_stop_neg: "slice_stop n (- int k) = (if k = 0 then 0 else n - k)"
  by (auto simp: slice_stop_def nat_diff_distrib')

lemma slice_stop_neg_numeral [simp]: "slice_stop n (- numeral k) = n - numeral k"
  by (simp add: slice_stop_def nat_diff_distrib')

lemma columns_iloc_cols_upto [simp]:
  "columns (iloc_cols_upto X s) = take (slice_stop (length (columns X)) s) (columns X)"
  by (simp add: iloc_cols_upto_def Let_def)

lemma rws_iloc_cols_upto [simp]:
  "rws (iloc_cols_upto X s)
     = map (\<lambda>(l, r). (l, take (slice_stop (length (columns X)) s) r)) (rws X)"
  by (simp add: iloc_cols_upto_def Let_def)

lemma traverse_Inr_iff:
  "traverse f xs = Inr ys \<longleftrightarrow> list_all2 (\<lambda>x y. f x = Inr y) xs ys"
proof (induction xs arbitrary: ys)
  case Nil
  then show ?case by auto
next
  case (Cons x xs)
  then show ?case
    by (cases ys) (auto simp: ebind_eq_Inr)
qed


lemma traverse_map:
  "(\<And>x. x \<in> set xs \<Longrightarrow> f x = Inr (g x)) \<Longrightarrow> traverse f xs = Inr (map g xs)"
  by (induction xs) simp_all

lemma zip_snd_in: "r \<in> set (zip xs ys) \<Longrightarrow> snd r \<in> set ys"
  using set_zip_rightD [of "fst r" "snd r" xs ys] by simp

lemma getitem_zip_Inr:
  assumes "length row = length cols" and "k \<in> set cols"
  shows "\<exists>v. getitem (zip cols row) k = Inr v"
proof -
  from assms have "map_of (zip cols row) k \<noteq> None"
    by (simp add: map_of_zip_is_None)
  then show ?thesis
    by (auto simp: getitem_def)
qed


lemma traverse_length: "traverse f xs = Inr ys \<Longrightarrow> length ys = length xs"
  by (auto simp: traverse_Inr_iff dest: list_all2_lengthD)

lemmas eval_defs = loc_def iloc_cols_upto_def slice_stop_def rename_def year_of_label_def
    py_int_def strip_def is_space_def digit_val_def iloc_col_def py_index_def col_at_def
    getitem_def getcol_def

lemmas avg_defs = preprocess_avg_NANs_def np_unique_def is_str_def the_str_def
  fill_indicator_def select_mask_def py_eq_def isnull_def np_median_def the_num_def
  get_cell_def set_cell_def np_isnan_def interpolate_def interp_at_def next_valid_def
  prev_valid_def valid_def loc_set_view_def scan_recent.simps upt_rec

lemma ex_run: "preprocess_avg_NANs ex_raw [1, 2, 5] 1 = Inr (ex_feat, [(1, NaN), (2, Num 4), (5, Num 4)])"
  by (simp add: ex_raw_def ex_feat_def eval_defs avg_defs)


lemmas cont_defs = preprocess_continents_def get_continent_def countries_get_def
  country_alpha2_to_continent_code_def names_NA_def names_EU_def names_AS_def names_AF_def
  names_SA_def setitem_col_def rename_cols_def impute_row_def impute_indyrcontavg_def isna_def
  loc_set_def

section \<open>Properties of the Continent Classifier\<close>

text \<open>
  C8. For a row whose country name is in one of the override lists, \<open>get_continent\<close>
  returns the fixed continent code of that list (NA, EU, AS, AF or SA), whatever the
  registry and the alpha-2-to-continent service hold, also when they hold nothing or
  another continent for that name: the generic lookup plays no part in the result.
\<close>

theorem get_continent_override:
  assumes "getitem row (Name ''Country Name'') = Inr (Str name)"
  shows "(name \<in> set names_NA \<longrightarrow> (\<forall>reg a2c. get_continent reg a2c row = Inr ''NA''))
       \<and> (name \<in> set names_EU \<longrightarrow> (\<forall>reg a2c. get_continent reg a2c row = Inr ''EU''))
       \<and> (name \<in> set names_AS \<longrightarrow> (\<forall>reg a2c. get_continent reg a2c row = Inr ''AS''))
       \<and> (name \<in> set names_AF \<longrightarrow> (\<forall>reg a2c. get_continent reg a2c row = Inr ''AF''))
       \<and> (name \<in> set names_SA \<longrightarrow> (\<forall>reg a2c. get_continent reg a2c row = Inr ''SA''))"
proof -
  have d1: "name \<in> set names_EU \<Longrightarrow> name \<notin> set names_NA"
    by (auto simp: names_NA_def names_EU_def)
  have d2: "name \<in> set names_AS \<Longrightarrow> name \<notin> set names_NA \<and> name \<notin> set names_EU"
    by (auto simp: names_NA_def names_EU_def names_AS_def)
  have d3: "name \<in> set names_AF \<Longrightarrow>
      name \<notin> set names_NA \<and> name \<notin> set names_EU \<and> name \<notin> set names_AS"
    by (auto simp: names_NA_def names_EU_def names_AS_def names_AF_def)
  have d4: "name \<in> set names_SA \<Longrightarrow>
      name \<notin> set names_NA \<and> name \<notin> set names_EU \<and> name \<notin> set names_AS
      \<and> name \<notin> set names_AF"
    by (auto simp: names_NA_def names_EU_def names_AS_def names_AF_def names_SA_def)
  show ?thesis
    using assms d1 d2 d3 d4 by (simp add: get_continent_def)
qed

theorem get_continent_override_witness:
  "getitem [(Name ''Country Name'', Str ''Kosovo''), (Name ''Series Code'', Str ''x'')]
      (Name ''Country Name'') = Inr (Str ''Kosovo'')
   \<and> ''Kosovo'' \<in> set names_EU
   \<and> get_continent Map.empty Map.empty
        [(Name ''Country Name'', Str ''Kosovo''), (Name ''Series Code'', Str ''x'')] = Inr ''EU''
   \<and> get_continent [''Kosovo'' \<mapsto> ''XK''] [''XK'' \<mapsto> ''AS'']
        [(Name ''Country Name'', Str ''Kosovo''), (Name ''Series Code'', Str ''x'')] = Inr ''EU''"
proof -
  let ?row = "[(Name ''Country Name'', Str ''Kosovo''), (Name ''Series Code'', Str ''x'')]"
  have g: "getitem ?row (Name ''Country Name'') = Inr (Str ''Kosovo'')"
    by (simp add: getitem_def)
  have m: "''Kosovo'' \<in> set names_EU"
    by (simp add: names_EU_def)
  from get_continent_override [OF g] m
  have "\<forall>reg a2c. get_continent reg a2c ?row = Inr ''EU''"
    by blast
  with g m show ?thesis by blast
qed

text \<open>
  C4. For a row whose country name is in no override list and is not a name of the
  registry, \<open>get_continent\<close> fails with the registry's LookupError-class error: the
  error is propagated, and no continent code is returned in its place.
\<close>

theorem get_continent_unknown_fails:
  assumes "getitem row (Name ''Country Name'') = Inr (Str name)"
    and "name \<notin> set (names_NA @ names_EU @ names_AS @ names_AF @ names_SA)"
    and "reg name = None"
  shows "\<exists>e. get_continent reg a2c row = Inl e \<and> lookup_error_class e"
  using assms
  by (simp add: get_continent_def countries_get_def lookup_error_class_def)

theorem get_continent_unknown_fails_witness:
  "getitem [(Name ''Country Name'', Str ''Atlantis'')] (Name ''Country Name'')
      = Inr (Str ''Atlantis'')
   \<and> ''Atlantis'' \<notin> set (names_NA @ names_EU @ names_AS @ names_AF @ names_SA)
   \<and> [''France'' \<mapsto> ''FR''] ''Atlantis'' = None
   \<and> get_continent [''France'' \<mapsto> ''FR''] [''FR'' \<mapsto> ''EU'']
        [(Name ''Country Name'', Str ''Atlantis'')] = Inl KeyError
   \<and> lookup_error_class KeyError"
proof -
  let ?row = "[(Name ''Country Name'', Str ''Atlantis'')]"
  have g: "getitem ?row (Name ''Country Name'') = Inr (Str ''Atlantis'')"
    by (simp add: getitem_def)
  have c: "''Atlantis'' \<notin> set (names_NA @ names_EU @ names_AS @ names_AF @ names_SA)"
    by (simp add: names_NA_def names_EU_def names_AS_def names_AF_def names_SA_def)
  have r: "[''France'' \<mapsto> ''FR''] ''Atlantis'' = None"
    by simp
  from get_continent_unknown_fails
    [where reg = "[''France'' \<mapsto> ''FR'']" and a2c = "[''FR'' \<mapsto> ''EU'']", OF g c r]
  obtain e where e: "get_continent [''France'' \<mapsto> ''FR''] [''FR'' \<mapsto> ''EU''] ?row = Inl e"
    and l: "lookup_error_class e"
    by blast
  have "get_continent [''France'' \<mapsto> ''FR''] [''FR'' \<mapsto> ''EU''] ?row = Inl KeyError"
    by (simp add: get_continent_def getitem_def countries_get_def names_NA_def
        names_EU_def names_AS_def names_AF_def names_SA_def)
  with e l have "lookup_error_class KeyError"
    by simp
  with \<open>get_continent [''France'' \<mapsto> ''FR''] [''FR'' \<mapsto> ''EU''] ?row = Inl KeyError\<close>
  show ?thesis using g c r by blast
qed

section \<open>Properties of the Row Selector/Reshaper\<close>

text \<open>
  C1, as the claim states it, fails: the Target is not the column at position
  \<open>-years_ahead\<close>. With the year columns 2005, 2006 and 2007 and \<open>years_ahead = 2\<close>
  the Target is the column 2007 (the value 30), where the column at position \<open>-2\<close> is
  2006 (the value 20).
\<close>

theorem split_target_counterexample:
  "ebind (loc ex_table [7]) (\<lambda>F. rename year_of_label (iloc_cols_upto F (- 3))) = Inr ex_years
   \<and> preprocess_simple ex_table [7] 2
       = Inr (\<lparr>columns = [Year 2005], rws = [(7, [Num 10])]\<rparr>, [(7, Num 30)])
   \<and> iloc_col ex_years (- 2) = Inr [(7, Num 20)]
   \<and> map_sum id snd (preprocess_simple ex_table [7] 2) \<noteq> iloc_col ex_years (- 2)"
  by (simp add: ex_table_def ex_years_def preprocess_simple_def eval_defs)


text \<open>
  C1, amended. Let \<open>S\<close> be the table of the year columns of the selected rows (in
  \<open>preprocess_simple\<close> the selected rows without the last 3 columns, renamed; in
  \<open>preprocess_with_continent_interpolation\<close> the imputed rows without the last 4),
  with \<open>n\<close> columns, and let \<open>0 < years_ahead < n\<close>. Then the returned Target is
  the last column of \<open>S\<close> (position \<open>-1\<close>, whatever \<open>years_ahead\<close> is), the
  Features are the columns of \<open>S\<close> strictly before position \<open>-years_ahead\<close>, row by
  row, and the number of Features columns plus \<open>years_ahead\<close> is \<open>n\<close>.
\<close>

theorem split_features_target:
  assumes "0 < ya" and "ya < length (columns S)"
  shows "(loc T idx = Inr F \<and> rename year_of_label (iloc_cols_upto F (- 3)) = Inr S
            \<longrightarrow> preprocess_simple T idx ya
                  = Inr (iloc_cols_upto S (- int ya), col_at S (length (columns S) - 1)))
       \<and> (preprocess_continents reg a2c T = Inr Tc \<and> loc Tc idx = Inr Fc
            \<and> rename rename_cols Fc = Inr R \<and> impute_loop avgs (columns R) (rws R) R = Inr I
            \<and> iloc_cols_upto I (- 4) = S
            \<longrightarrow> preprocess_with_continent_interpolation reg a2c avgs T idx ya
                  = Inr (iloc_cols_upto S (- int ya), col_at S (length (columns S) - 1)))
       \<and> columns (iloc_cols_upto S (- int ya)) = take (length (columns S) - ya) (columns S)
       \<and> rws (iloc_cols_upto S (- int ya))
           = map (\<lambda>(l, r). (l, take (length (columns S) - ya) r)) (rws S)
       \<and> length (columns (iloc_cols_upto S (- int ya))) + ya = length (columns S)"
proof -
  have last: "iloc_col S (- 1) = Inr (col_at S (length (columns S) - 1))"
    using assms by (auto simp: iloc_col_def py_index_last)
  have simple: "preprocess_simple T idx ya
      = Inr (iloc_cols_upto S (- int ya), col_at S (length (columns S) - 1))"
    if "loc T idx = Inr F" "rename year_of_label (iloc_cols_upto F (- 3)) = Inr S"
    using that last by (simp add: preprocess_simple_def)
  have cont: "preprocess_with_continent_interpolation reg a2c avgs T idx ya
      = Inr (iloc_cols_upto S (- int ya), col_at S (length (columns S) - 1))"
    if "preprocess_continents reg a2c T = Inr Tc" "loc Tc idx = Inr Fc"
      "rename rename_cols Fc = Inr R" "impute_loop avgs (columns R) (rws R) R = Inr I"
      "iloc_cols_upto I (- 4) = S"
    using that last by (simp add: preprocess_with_continent_interpolation_def)
  show ?thesis
    using simple cont assms by (simp add: slice_stop_neg)
qed

theorem split_features_target_witness:
  "(0::nat) < 2 \<and> 2 < length (columns ex_years)
   \<and> loc ex_table [7] = Inr ex_selected
   \<and> rename year_of_label (iloc_cols_upto ex_selected (- 3)) = Inr ex_years
   \<and> preprocess_simple ex_table [7] 2
       = Inr (\<lparr>columns = [Year 2005], rws = [(7, [Num 10])]\<rparr>, [(7, Num 30)])
   \<and> preprocess_continents ex_reg ex_a2c ex_table = Inr ex_tagged
   \<and> loc ex_tagged [7] = Inr (ex_tagged\<lparr>rws := [hd (rws ex_tagged)]\<rparr>)
   \<and> rename rename_cols (ex_tagged\<lparr>rws := [hd (rws ex_tagged)]\<rparr>) = Inr ex_renamed
   \<and> impute_loop ex_avgs (columns ex_renamed) (rws ex_renamed) ex_renamed = Inr ex_renamed
   \<and> iloc_cols_upto ex_renamed (- 4) = ex_years
   \<and> preprocess_with_continent_interpolation ex_reg ex_a2c ex_avgs ex_table [7] 2
       = Inr (\<lparr>columns = [Year 2005], rws = [(7, [Num 10])]\<rparr>, [(7, Num 30)])"
proof -
  have h: "(0::nat) < 2" "2 < length (columns ex_years)"
    by (simp_all add: ex_years_def)
  have a: "loc ex_table [7] = Inr ex_selected"
    by (simp add: ex_table_def ex_selected_def eval_defs)
  have b: "rename year_of_label (iloc_cols_upto ex_selected (- 3)) = Inr ex_years"
    by (simp add: ex_selected_def ex_years_def eval_defs)
  have c: "preprocess_continents ex_reg ex_a2c ex_table = Inr ex_tagged"
    by (simp add: ex_table_def ex_tagged_def ex_reg_def ex_a2c_def eval_defs cont_defs)
  have d: "loc ex_tagged [7] = Inr (ex_tagged\<lparr>rws := [hd (rws ex_tagged)]\<rparr>)"
    by (simp add: ex_tagged_def eval_defs)
  have e: "rename rename_cols (ex_tagged\<lparr>rws := [hd (rws ex_tagged)]\<rparr>) = Inr ex_renamed"
    by (simp add: ex_tagged_def ex_renamed_def eval_defs cont_defs)
  have f: "impute_loop ex_avgs (columns ex_renamed) (rws ex_renamed) ex_renamed = Inr ex_renamed"
    by (simp add: ex_renamed_def ex_avgs_def eval_defs cont_defs)
  have g: "iloc_cols_upto ex_renamed (- 4) = ex_years"
    by (simp add: ex_renamed_def ex_years_def eval_defs)
  have v: "iloc_cols_upto ex_years (- int 2) = \<lparr>columns = [Year 2005], rws = [(7, [Num 10])]\<rparr>"
    "col_at ex_years (length (columns ex_years) - 1) = [(7, Num 30)]"
    by (simp_all add: ex_years_def eval_defs)
  from split_features_target [OF h, where T = ex_table and idx = "[7]" and F = ex_selected
      and reg = ex_reg and ?a2c = ex_a2c and Tc = ex_tagged
      and Fc = "ex_tagged\<lparr>rws := [hd (rws ex_tagged)]\<rparr>" and R = ex_renamed
      and avgs = ex_avgs and I = ex_renamed] a b c d e f g v
  show ?thesis using h by simp
qed


section \<open>Properties of the Average-Table Imputer\<close>





lemma impute_loop_rows_ok:
  "impute_loop avgs cols rows X = Inr X' \<Longrightarrow> (ix, row) \<in> set rows
     \<Longrightarrow> \<exists>df. impute_row avgs cols row = Inr df"
proof (induction rows arbitrary: X)
  case Nil
  then show ?case by simp
next
  case (Cons a rows)
  obtain ix' row' where a: "a = (ix', row')" by (cases a)
  from Cons.prems(1) a obtain df where df: "impute_row avgs cols row' = Inr df"
    and rest: "impute_loop avgs cols rows (loc_set X ix' df) = Inr X'"
    by (auto simp: ebind_eq_Inr)
  show ?case
  proof (cases "(ix, row) = a")
    case True
    with a df show ?thesis by auto
  next
    case False
    with Cons.prems(2) have "(ix, row) \<in> set rows" by simp
    from Cons.IH [OF rest this] show ?thesis .
  qed
qed






lemma impute_row_complete:
  assumes "NaN \<notin> set row" and "length row = length cols"
    and "Name ''Series Code'' \<in> set cols" and "Name ''continent'' \<in> set cols"
  shows "impute_row avgs cols row = Inr row"
proof -
  obtain ind where ind: "getitem (zip cols row) (Name ''Series Code'') = Inr ind"
    using getitem_zip_Inr [OF assms(2,3)] by blast
  obtain cont where cont: "getitem (zip cols row) (Name ''continent'') = Inr cont"
    using getitem_zip_Inr [OF assms(2,4)] by blast
  have "impute_indyrcontavg avgs r ind cont = Inr (snd r)" if "r \<in> set (zip cols row)" for r
  proof -
    from that have "snd r \<in> set row"
      by (rule zip_snd_in)
    with assms(1) show ?thesis
      by (auto simp: impute_indyrcontavg_def isna_def)
  qed
  then have "traverse (\<lambda>r. impute_indyrcontavg avgs r ind cont) (zip cols row)
      = Inr (map snd (zip cols row))"
    by (rule traverse_map)
  with ind cont assms(2) show ?thesis
    by (simp add: impute_row_def)
qed

lemma impute_row_complete_Inr:
  assumes "impute_row avgs cols row = Inr df" and "NaN \<notin> set row"
    and "length row = length cols"
  shows "df = row"
proof -
  from assms(1) obtain ind cont
    where tr: "traverse (\<lambda>r. impute_indyrcontavg avgs r ind cont) (zip cols row) = Inr df"
    by (auto simp: impute_row_def ebind_eq_Inr)
  have "impute_indyrcontavg avgs r ind cont = Inr (snd r)" if "r \<in> set (zip cols row)" for r
  proof -
    from that have "snd r \<in> set row"
      by (rule zip_snd_in)
    with assms(2) show ?thesis
      by (auto simp: impute_indyrcontavg_def isna_def)
  qed
  then have "traverse (\<lambda>r. impute_indyrcontavg avgs r ind cont) (zip cols row)
      = Inr (map snd (zip cols row))"
    by (rule traverse_map)
  with tr assms(3) show ?thesis by simp
qed

lemma impute_loop_Inr:
  assumes "impute_loop avgs cols rows X = Inr X'" and "distinct (map fst rows)"
  shows "columns X' = columns X
       \<and> rws X' = map (\<lambda>(l, r). case map_of rows l of
                                   None \<Rightarrow> (l, r)
                                 | Some row \<Rightarrow> (l, projr (impute_row avgs cols row))) (rws X)"
  using assms
proof (induction rows arbitrary: X)
  case Nil
  then show ?case by simp
next
  case (Cons a rows)
  obtain ix row where a: "a = (ix, row)" by (cases a)
  from Cons.prems(1) a obtain df where df: "impute_row avgs cols row = Inr df"
    and rest: "impute_loop avgs cols rows (loc_set X ix df) = Inr X'"
    by (auto simp: ebind_eq_Inr)
  from Cons.prems(2) a have d: "distinct (map fst rows)" and nin: "ix \<notin> fst ` set rows"
    by auto
  from nin have none: "map_of rows ix = None"
    by (simp add: map_of_eq_None_iff)
  from Cons.IH [OF rest d] none df a show ?case
    by (auto simp: loc_set_def)
qed

lemma impute_loop_succeeds:
  "(\<And>ix row. (ix, row) \<in> set rows \<Longrightarrow> \<exists>df. impute_row avgs cols row = Inr df)
     \<Longrightarrow> \<exists>X'. impute_loop avgs cols rows X = Inr X'"
proof (induction rows arbitrary: X)
  case Nil
  then show ?case by simp
next
  case (Cons a rows)
  obtain ix row where a: "a = (ix, row)" by (cases a)
  from Cons.prems [of ix row] a obtain df where df: "impute_row avgs cols row = Inr df"
    by auto
  have "\<exists>X'. impute_loop avgs cols rows (loc_set X ix df) = Inr X'"
    by (rule Cons.IH) (auto intro: Cons.prems)
  with a df show ?case by simp
qed

text \<open>
  C6. In a well-formed table with distinct row labels, the imputation loop leaves every
  row that has no missing value as it is (the rows keep their labels and their order);
  and on a table none of whose rows has a missing value, with its \<open>Series Code\<close> and
  \<open>continent\<close> columns, the loop returns the table unchanged, so running it again on
  a fully imputed table is a no-op.
\<close>

theorem impute_complete_rows_unchanged:
  assumes "wf_frame X" and "distinct (index X)"
  shows "(impute_loop avgs (columns X) (rws X) X = Inr X'
            \<longrightarrow> index X' = index X
              \<and> (\<forall>k < length (rws X). NaN \<notin> set (snd (rws X ! k))
                    \<longrightarrow> rws X' ! k = rws X ! k))
       \<and> ((\<forall>lr \<in> set (rws X). NaN \<notin> set (snd lr))
            \<and> Name ''Series Code'' \<in> set (columns X) \<and> Name ''continent'' \<in> set (columns X)
            \<longrightarrow> impute_loop avgs (columns X) (rws X) X = Inr X)"
proof -
  have len: "length r = length (columns X)" if "(l, r) \<in> set (rws X)" for l r
    using assms(1) that by (auto simp: wf_frame_def list_all_iff)
  have d: "distinct (map fst (rws X))"
    using assms(2) by (simp add: index_def)
  have part1: "index Y = index X
      \<and> (\<forall>k < length (rws X). NaN \<notin> set (snd (rws X ! k)) \<longrightarrow> rws Y ! k = rws X ! k)"
    if ok: "impute_loop avgs (columns X) (rws X) X = Inr Y" for Y
  proof -
    from impute_loop_Inr [OF ok d]
    have rw: "rws Y = map (\<lambda>(l, r). case map_of (rws X) l of
                                   None \<Rightarrow> (l, r)
                                 | Some row \<Rightarrow> (l, projr (impute_row avgs (columns X) row))) (rws X)"
      by simp
    have "index Y = index X"
      unfolding index_def rw by (auto split: option.splits)
    moreover have "rws Y ! k = rws X ! k"
      if k: "k < length (rws X)" and c: "NaN \<notin> set (snd (rws X ! k))" for k
    proof -
      obtain l r where lr: "rws X ! k = (l, r)" by (cases "rws X ! k")
      with k have mem: "(l, r) \<in> set (rws X)" by (metis nth_mem)
      with d have m: "map_of (rws X) l = Some r" by simp
      from impute_loop_rows_ok [OF ok mem] obtain df
        where df: "impute_row avgs (columns X) r = Inr df" by blast
      from impute_row_complete_Inr [OF df] c lr len [OF mem] have "df = r" by simp
      with k lr m df show ?thesis by (simp add: rw)
    qed
    ultimately show ?thesis by blast
  qed
  have part2: "impute_loop avgs (columns X) (rws X) X = Inr X"
    if c: "\<forall>lr \<in> set (rws X). NaN \<notin> set (snd lr)"
      and sc: "Name ''Series Code'' \<in> set (columns X)"
      and ct: "Name ''continent'' \<in> set (columns X)"
  proof -
    have row: "impute_row avgs (columns X) r = Inr r" if "(l, r) \<in> set (rws X)" for l r
      using that c len [OF that] sc ct by (intro impute_row_complete) auto
    then have "\<exists>Y. impute_loop avgs (columns X) (rws X) X = Inr Y"
      by (intro impute_loop_succeeds) blast
    then obtain Y where ok: "impute_loop avgs (columns X) (rws X) X = Inr Y" ..
    from impute_loop_Inr [OF ok d] have cols: "columns Y = columns X" by simp
    from part1 [OF ok] c have "length (rws Y) = length (rws X)"
      "\<forall>k < length (rws X). rws Y ! k = rws X ! k"
      by (auto simp: index_def dest: arg_cong [where f = length])
    then have "rws Y = rws X" by (simp add: list_eq_iff_nth_eq)
    with cols have "Y = X" by simp
    with ok show ?thesis by simp
  qed
  from part1 part2 show ?thesis by blast
qed


theorem impute_complete_rows_unchanged_witness:
  "wf_frame ex_renamed2 \<and> distinct (index ex_renamed2)
   \<and> impute_loop ex_avgs (columns ex_renamed2) (rws ex_renamed2) ex_renamed2 = Inr ex_imputed2
   \<and> index ex_imputed2 = index ex_renamed2
   \<and> NaN \<notin> set (snd (rws ex_renamed2 ! 0))
   \<and> rws ex_imputed2 ! 0 = rws ex_renamed2 ! 0
   \<and> rws ex_imputed2 ! 1 \<noteq> rws ex_renamed2 ! 1
   \<and> wf_frame ex_imputed2 \<and> distinct (index ex_imputed2)
   \<and> list_all (\<lambda>lr. NaN \<notin> set (snd lr)) (rws ex_imputed2)
   \<and> Name ''Series Code'' \<in> set (columns ex_imputed2)
   \<and> Name ''continent'' \<in> set (columns ex_imputed2)
   \<and> impute_loop ex_avgs (columns ex_imputed2) (rws ex_imputed2) ex_imputed2 = Inr ex_imputed2"
proof -
  have w: "wf_frame ex_renamed2" "distinct (index ex_renamed2)"
    by (simp_all add: ex_renamed2_def wf_frame_def index_def)
  have w2: "wf_frame ex_imputed2" "distinct (index ex_imputed2)"
    by (simp_all add: ex_imputed2_def wf_frame_def index_def)
  have run: "impute_loop ex_avgs (columns ex_renamed2) (rws ex_renamed2) ex_renamed2
      = Inr ex_imputed2"
    by (simp add: ex_renamed2_def ex_imputed2_def ex_avgs_def getitem_def cont_defs)
  have c0: "NaN \<notin> set (snd (rws ex_renamed2 ! 0))" "0 < length (rws ex_renamed2)"
    by (simp_all add: ex_renamed2_def)
  have c1: "rws ex_imputed2 ! 1 \<noteq> rws ex_renamed2 ! 1"
    by (simp add: ex_renamed2_def ex_imputed2_def)
  have all: "\<forall>lr \<in> set (rws ex_imputed2). NaN \<notin> set (snd lr)"
    "Name ''Series Code'' \<in> set (columns ex_imputed2)"
    "Name ''continent'' \<in> set (columns ex_imputed2)"
    by (simp_all add: ex_imputed2_def)
  from impute_complete_rows_unchanged [OF w, of ex_avgs ex_imputed2] run c0
  have p1: "index ex_imputed2 = index ex_renamed2"
    "rws ex_imputed2 ! 0 = rws ex_renamed2 ! 0"
    by blast+
  from impute_complete_rows_unchanged [OF w2, of ex_avgs ex_imputed2] all
  have p2: "impute_loop ex_avgs (columns ex_imputed2) (rws ex_imputed2) ex_imputed2
      = Inr ex_imputed2"
    by blast
  from w w2 run c0 c1 all p1 p2 show ?thesis
    by (simp add: list_all_iff)
qed


section \<open>Properties of the Interpolator\<close>






lemma prev_valid_pred:
  assumes "0 < p" and "xs ! (p - 1) \<noteq> NaN"
  shows "prev_valid xs p = Some (p - 1)"
proof -
  from assms(1) obtain q where p: "p = Suc q" by (cases p) auto
  with assms(2) show ?thesis
    by (simp add: prev_valid_def valid_def)
qed









section \<open>Properties of the Median/Recent-Value Imputer\<close>

lemma ex_steps:
  "loc ex_raw [1, 2, 5] = Inr ex_rows"
  "rename year_of_label (iloc_cols_upto ex_rows (- 3)) = Inr ex_sel"
  "getcol ex_rows (Name ''Series Name'') = Inr ex_names"
  "np_unique ex_names = Inr [Str ''GDP'', Str ''Pop'']"
  "iloc_col ex_raw (- 5) = Inr ex_last_all"
  "fill_indicators ex_raw ex_names ex_last_all 9 8 [Str ''GDP'', Str ''Pop''] ex_sel
     = Inr ex_filled"
  by (simp_all add: ex_raw_def ex_rows_def ex_sel_def ex_names_def ex_last_all_def
      ex_filled_def eval_defs avg_defs)

lemma unchanged_outside_refl: "unchanged_outside W B B"
  by (simp add: unchanged_outside_def)

lemma unchanged_outside_trans:
  assumes "unchanged_outside W A B" and "unchanged_outside W B C"
  shows "unchanged_outside W A C"
proof -
  from assms(1) have "length (rws B) = length (rws A)"
    unfolding unchanged_outside_def by (metis length_map)
  with assms show ?thesis
    unfolding unchanged_outside_def by simp
qed

lemma unchanged_outside_mono:
  "unchanged_outside W A B \<Longrightarrow> W \<subseteq> W' \<Longrightarrow> unchanged_outside W' A B"
  unfolding unchanged_outside_def by blast

lemma set_cell_unchanged: "unchanged_outside {c} B (set_cell B c i v)"
  by (auto simp: unchanged_outside_def set_cell_def split: prod.splits)

lemma scan_recent_unchanged:
  "scan_recent m i ks B = Inr B' \<Longrightarrow> unchanged_outside {m - 1} B B'"
proof (induction ks)
  case Nil
  then show ?case by (simp add: scan_recent.simps unchanged_outside_refl)
next
  case (Cons k ks)
  from Cons.prems [unfolded scan_recent.simps]
  obtain c v nan where c: "py_index m (- int k) = Inr c"
    and v: "get_cell B c i = Inr v" and nan: "np_isnan v = Inr nan"
    and rest: "(if \<not> nan then ebind (py_index m (- 1)) (\<lambda>c1. Inr (set_cell B c1 i v))
               else scan_recent m i ks B) = Inr B'"
    by (auto simp: ebind_eq_Inr)
  show ?case
  proof (cases nan)
    case True
    with rest Cons.IH show ?thesis by simp
  next
    case False
    with rest have "B' = set_cell B (m - 1) i v"
      by (auto simp: ebind_eq_Inr py_index_last split: if_splits)
    then show ?thesis by (simp add: set_cell_unchanged)
  qed
qed

lemma fill_nans_unchanged:
  "fill_nans m med is B = Inr B' \<Longrightarrow> unchanged_outside {m - 1} B B'"
proof (induction "is" arbitrary: B)
  case Nil
  then show ?case by (simp add: unchanged_outside_refl)
next
  case (Cons i rest)
  from Cons.prems obtain B1
    where s: "scan_recent m i [2..<10] (set_cell B (m - 1) i med) = Inr B1"
      and r: "fill_nans m med rest B1 = Inr B'"
    by (auto simp: ebind_eq_Inr py_index_last split: if_splits)
  from set_cell_unchanged scan_recent_unchanged [OF s]
  have "unchanged_outside {m - 1} B B1"
    by (rule unchanged_outside_trans)
  with Cons.IH [OF r] show ?case
    by (rule unchanged_outside_trans [rotated -1])
qed

lemma fill_indicator_unchanged:
  "fill_indicator T names lca m lastc ind B = Inr B' \<Longrightarrow> unchanged_outside {m - 1} B B'"
  by (auto simp: fill_indicator_def Let_def ebind_eq_Inr dest: fill_nans_unchanged)

lemma fill_indicators_unchanged:
  "fill_indicators T names lca m lastc inds B = Inr B' \<Longrightarrow> unchanged_outside {m - 1} B B'"
proof (induction inds arbitrary: B)
  case Nil
  then show ?case by (simp add: unchanged_outside_refl)
next
  case (Cons ind inds)
  from Cons.prems obtain B1 where 1: "fill_indicator T names lca m lastc ind B = Inr B1"
    and 2: "fill_indicators T names lca m lastc inds B1 = Inr B'"
    by (auto simp: ebind_eq_Inr)
  from fill_indicator_unchanged [OF 1] Cons.IH [OF 2] show ?case
    by (rule unchanged_outside_trans)
qed


lemma view_update_row:
  assumes "m \<le> length r" and "length vals = m"
  shows "length (vals @ drop m r) = length r" and "m \<le> j \<Longrightarrow> (vals @ drop m r) ! j = r ! j"
  using assms by (auto simp: nth_append)

lemma loc_set_view_unchanged:
  assumes "\<forall>lr \<in> set (rws B). m \<le> length (snd lr)" and "length vals = m"
  shows "unchanged_outside {..<m} B (loc_set_view m B ix vals)"
proof -
  have "length (snd (rws (loc_set_view m B ix vals) ! k)) = length (snd (rws B ! k))
      \<and> (\<forall>j. j \<notin> {..<m} \<longrightarrow> snd (rws (loc_set_view m B ix vals) ! k) ! j = snd (rws B ! k) ! j)"
    if k: "k < length (rws B)" for k
  proof -
    obtain l r where lr: "rws B ! k = (l, r)" by (cases "rws B ! k")
    from k have "rws B ! k \<in> set (rws B)" by simp
    with assms(1) lr have "m \<le> length r" by force
    from view_update_row [OF this assms(2)] k lr show ?thesis
      by (simp add: loc_set_view_def)
  qed
  then show ?thesis
    by (simp add: unchanged_outside_def) (simp add: loc_set_view_def split_def)
qed

lemma interpolate_length: "interpolate limit xs = Inr ys \<Longrightarrow> length ys = length xs"
  by (auto simp: interpolate_def split: if_splits)

lemma interp_loop_unchanged:
  assumes "interp_loop m ks B = Inr B'"
    and "\<forall>lr \<in> set (rws B). m \<le> length (snd lr)"
    and "\<forall>k \<in> set ks. k < length (rws B)"
  shows "unchanged_outside {..<m} B B'"
  using assms
proof (induction ks arbitrary: B)
  case Nil
  then show ?case by (simp add: unchanged_outside_refl)
next
  case (Cons k ks)
  from Cons.prems(1) obtain vals
    where v: "interpolate 50 (take m (snd (rws B ! k))) = Inr vals"
      and r: "interp_loop m ks (loc_set_view m B (fst (rws B ! k)) vals) = Inr B'"
    by (auto simp: ebind_eq_Inr)
  let ?B1 = "loc_set_view m B (fst (rws B ! k)) vals"
  from Cons.prems(3) have "rws B ! k \<in> set (rws B)" by simp
  with Cons.prems(2) have "m \<le> length (snd (rws B ! k))" by blast
  with interpolate_length [OF v] have len: "length vals = m" by simp
  from loc_set_view_unchanged [OF Cons.prems(2) len]
  have 1: "unchanged_outside {..<m} B ?B1" .
  then have same: "length (rws ?B1) = length (rws B)"
    unfolding unchanged_outside_def by (metis length_map)
  have rows: "\<forall>lr \<in> set (rws ?B1). m \<le> length (snd lr)"
    using Cons.prems(2) len by (auto simp: loc_set_view_def)
  from Cons.prems(3) same have "\<forall>k \<in> set ks. k < length (rws ?B1)" by simp
  from Cons.IH [OF r rows this] 1 show ?case
    by (rule unchanged_outside_trans [rotated])
qed


text \<open>
  C9. The median/recent-value filling phase of \<open>preprocess_avg_NANs\<close> (the loop over
  the indicators, before the interpolation loop) writes only the last feature column,
  the column at position \<open>m - 1\<close> of the \<open>m\<close> feature columns: when the phase
  returns, the table has the same columns, row labels and row lengths, and every cell in
  any other column is the one it was before.
\<close>

theorem fill_writes_last_feature_column_only:
  assumes "fill_indicators T names last_column_all m lastc indicators B = Inr B'"
  shows "columns B' = columns B \<and> index B' = index B
       \<and> (\<forall>k < length (rws B).
             length (snd (rws B' ! k)) = length (snd (rws B ! k))
             \<and> (\<forall>j. j \<noteq> m - 1 \<longrightarrow> snd (rws B' ! k) ! j = snd (rws B ! k) ! j))"
  using fill_indicators_unchanged [OF assms]
  by (simp add: unchanged_outside_def index_def)

theorem fill_writes_last_feature_column_only_witness:
  "fill_indicators ex_raw ex_names ex_last_all 9 8 [Str ''GDP'', Str ''Pop''] ex_sel
     = Inr ex_filled
   \<and> columns ex_filled = columns ex_sel \<and> index ex_filled = index ex_sel
   \<and> snd (rws ex_filled ! 0) ! 3 = snd (rws ex_sel ! 0) ! 3
   \<and> snd (rws ex_filled ! 1) ! 9 = snd (rws ex_sel ! 1) ! 9
   \<and> snd (rws ex_filled ! 0) ! 8 \<noteq> snd (rws ex_sel ! 0) ! 8"
proof -
  have run: "fill_indicators ex_raw ex_names ex_last_all 9 8 [Str ''GDP'', Str ''Pop''] ex_sel
     = Inr ex_filled"
    by (rule ex_steps)
  have n: "0 < length (rws ex_sel)" "1 < length (rws ex_sel)"
    by (simp_all add: ex_sel_def)
  have ch: "snd (rws ex_filled ! 0) ! 8 \<noteq> snd (rws ex_sel ! 0) ! 8"
    by (simp add: ex_sel_def ex_filled_def)
  from fill_writes_last_feature_column_only [OF run] n ch run show ?thesis
    by simp
qed


lemma loc_Inr:
  assumes "loc T idx = Inr F"
  shows "columns F = columns T" and "set (rws F) \<subseteq> set (rws T)"
proof -
  from assms obtain rss
    where tr: "traverse (\<lambda>l. case filter (\<lambda>lr. fst lr = l) (rws T) of
                              [] \<Rightarrow> Inl KeyError | rs \<Rightarrow> Inr rs) idx = Inr rss"
      and F: "F = T\<lparr>rws := concat rss\<rparr>"
    by (auto simp: loc_def ebind_eq_Inr)
  from F show "columns F = columns T" by simp
  have "set rs \<subseteq> set (rws T)" if "rs \<in> set rss" for rs
  proof -
    from that obtain k where k: "k < length rss" "rss ! k = rs"
      by (auto simp: in_set_conv_nth)
    from tr have all: "list_all2 (\<lambda>l rs. (case filter (\<lambda>lr. fst lr = l) (rws T) of
                              [] \<Rightarrow> Inl KeyError | rs \<Rightarrow> Inr rs) = Inr rs) idx rss"
      by (simp add: traverse_Inr_iff)
    from list_all2_nthD2 [OF all k(1)] k(2)
    have "rs = filter (\<lambda>lr. fst lr = idx ! k) (rws T)"
      by (auto split: list.splits)
    then show ?thesis by auto
  qed
  with F show "set (rws F) \<subseteq> set (rws T)" by auto
qed

lemma rename_Inr:
  "rename f X = Inr S \<Longrightarrow> rws S = rws X \<and> length (columns S) = length (columns X)"
  by (auto simp: rename_def ebind_eq_Inr dest: traverse_length)

lemma col_at_unchanged:
  assumes "unchanged_outside W B B'" and "j \<notin> W"
  shows "col_at B' j = col_at B j"
proof -
  from assms(1) have fst: "map fst (rws B') = map fst (rws B)"
    and cell: "\<forall>k < length (rws B). snd (rws B' ! k) ! j = snd (rws B ! k) ! j"
    using assms(2) by (simp_all add: unchanged_outside_def)
  from fst have len: "length (rws B') = length (rws B)" by (metis length_map)
  have "col_at B' j ! k = col_at B j ! k" if "k < length (rws B)" for k
  proof -
    from fst that len have "fst (rws B' ! k) = fst (rws B ! k)"
      by (metis nth_map)
    with cell that len show ?thesis
      by (simp add: col_at_def split_def)
  qed
  with len show ?thesis
    by (simp add: list_eq_iff_nth_eq col_at_def)
qed


lemma preprocess_avg_NANs_Inr:
  assumes "preprocess_avg_NANs T idx ya = Inr (X, Y)"
  obtains F S names inds lastc lca B1 B2
  where "loc T idx = Inr F"
    and "rename year_of_label (iloc_cols_upto F (- 3)) = Inr S"
    and "0 < length (columns S)"
    and "getcol F (Name ''Series Name'') = Inr names"
    and "np_unique names = Inr inds"
    and "py_index (slice_stop (length (columns S)) (- int ya)) (- 1) = Inr lastc"
    and "iloc_col T (- 5) = Inr lca"
    and "fill_indicators T names lca (slice_stop (length (columns S)) (- int ya)) lastc inds S
           = Inr B1"
    and "interp_loop (slice_stop (length (columns S)) (- int ya)) [0..<length (rws B1)] B1
           = Inr B2"
    and "X = iloc_cols_upto B2 (- int ya)"
    and "Y = col_at B2 (length (columns S) - 1)"
proof -
  from assms obtain F where F: "loc T idx = Inr F"
    and 1: "ebind (rename year_of_label (iloc_cols_upto F (- 3))) (\<lambda>B.
     ebind (py_index (length (columns B)) (- 1)) (\<lambda>y.
     let m = slice_stop (length (columns B)) (- int ya) in
     ebind (getcol F (Name ''Series Name'')) (\<lambda>names.
     ebind (np_unique names) (\<lambda>indicators.
     ebind (py_index m (- 1)) (\<lambda>lastc.
     ebind (iloc_col T (- 5)) (\<lambda>last_column_all.
     ebind (fill_indicators T names last_column_all m lastc indicators B) (\<lambda>B.
     ebind (interp_loop m [0..<length (rws B)] B) (\<lambda>B.
       Inr (iloc_cols_upto B (- int ya), col_at B y))))))))) = Inr (X, Y)"
    unfolding preprocess_avg_NANs_def ebind_eq_Inr [of "loc T idx"] by blast
  from 1 obtain S where S: "rename year_of_label (iloc_cols_upto F (- 3)) = Inr S"
    and 2: "ebind (py_index (length (columns S)) (- 1)) (\<lambda>y.
     let m = slice_stop (length (columns S)) (- int ya) in
     ebind (getcol F (Name ''Series Name'')) (\<lambda>names.
     ebind (np_unique names) (\<lambda>indicators.
     ebind (py_index m (- 1)) (\<lambda>lastc.
     ebind (iloc_col T (- 5)) (\<lambda>last_column_all.
     ebind (fill_indicators T names last_column_all m lastc indicators S) (\<lambda>B.
     ebind (interp_loop m [0..<length (rws B)] B) (\<lambda>B.
       Inr (iloc_cols_upto B (- int ya), col_at B y)))))))) = Inr (X, Y)"
    unfolding ebind_eq_Inr [of "rename year_of_label (iloc_cols_upto F (- 3))"] by blast
  from 2 have n: "0 < length (columns S)"
    by (cases "length (columns S)") (simp_all add: py_index_last)
  let ?m = "slice_stop (length (columns S)) (- int ya)"
  from 2 n have 3: "ebind (getcol F (Name ''Series Name'')) (\<lambda>names.
     ebind (np_unique names) (\<lambda>indicators.
     ebind (py_index ?m (- 1)) (\<lambda>lastc.
     ebind (iloc_col T (- 5)) (\<lambda>last_column_all.
     ebind (fill_indicators T names last_column_all ?m lastc indicators S) (\<lambda>B.
     ebind (interp_loop ?m [0..<length (rws B)] B) (\<lambda>B.
       Inr (iloc_cols_upto B (- int ya), col_at B (length (columns S) - 1))))))))
      = Inr (X, Y)"
    by (simp add: py_index_last Let_def)
  then obtain names inds lastc lca B1 B2
    where "getcol F (Name ''Series Name'') = Inr names" "np_unique names = Inr inds"
      "py_index ?m (- 1) = Inr lastc" "iloc_col T (- 5) = Inr lca"
      "fill_indicators T names lca ?m lastc inds S = Inr B1"
      "interp_loop ?m [0..<length (rws B1)] B1 = Inr B2"
      "Inr (iloc_cols_upto B2 (- int ya), col_at B2 (length (columns S) - 1))
         = (Inr (X, Y) :: error + frame \<times> series)"
    unfolding ebind_eq_Inr by blast
  with F S n that show thesis by simp
qed

text \<open>
  C10. In \<open>preprocess_avg_NANs\<close> the Target is exempt from the imputation: whenever the
  function (on a well-formed table) returns, the returned \<open>Y\<close> is the last year column
  of the selected, renamed rows, which is the fourth column from the end of the selected
  raw rows, with its missing values as they are. Neither the median/recent-value fill nor
  the interpolation writes it, although they write to the table \<open>Y\<close> is a view of.
\<close>

theorem target_untouched:
  assumes "preprocess_avg_NANs T idx ya = Inr (X, Y)" and "wf_frame T"
  shows "\<exists>F S. loc T idx = Inr F \<and> rename year_of_label (iloc_cols_upto F (- 3)) = Inr S
           \<and> iloc_col S (- 1) = Inr Y \<and> Y = col_at F (length (columns T) - 4)"
proof -
  from assms(1) obtain F S names inds lastc lca B1 B2
    where F: "loc T idx = Inr F"
      and S: "rename year_of_label (iloc_cols_upto F (- 3)) = Inr S"
      and n: "0 < length (columns S)"
      and lastc: "py_index (slice_stop (length (columns S)) (- int ya)) (- 1) = Inr lastc"
      and fill: "fill_indicators T names lca (slice_stop (length (columns S)) (- int ya))
                   lastc inds S = Inr B1"
      and interp: "interp_loop (slice_stop (length (columns S)) (- int ya))
                     [0..<length (rws B1)] B1 = Inr B2"
      and Y: "Y = col_at B2 (length (columns S) - 1)"
    by (rule preprocess_avg_NANs_Inr)
  let ?n = "length (columns S)"
  let ?m = "slice_stop ?n (- int ya)"
  from lastc have m0: "0 < ?m"
    by (simp add: py_index_last split: if_splits)
  then have mn: "?m \<le> ?n - 1"
    by (auto simp: slice_stop_neg split: if_splits)
  from loc_Inr [OF F] have colsF: "columns F = columns T" and rowsF: "set (rws F) \<subseteq> set (rws T)" .
  from rename_Inr [OF S]
  have rwsS: "rws S = map (\<lambda>(l, r). (l, take (length (columns F) - 3) r)) (rws F)"
    and nF: "?n = length (columns F) - 3"
    by simp_all
  have lenS: "length (snd lr) = ?n" if "lr \<in> set (rws S)" for lr
  proof -
    from that rwsS obtain l r where "(l, r) \<in> set (rws F)"
      and lr: "lr = (l, take (length (columns F) - 3) r)" by auto
    with rowsF have "(l, r) \<in> set (rws T)" by blast
    with assms(2) have "length r = length (columns T)"
      by (force simp: wf_frame_def list_all_iff)
    with lr colsF nF show ?thesis by simp
  qed
  from fill_indicators_unchanged [OF fill] have u1: "unchanged_outside {?m - 1} S B1" .
  then have lenB1: "length (rws B1) = length (rws S)"
    unfolding unchanged_outside_def by (metis length_map)
  have rowsB1: "\<forall>lr \<in> set (rws B1). ?m \<le> length (snd lr)"
  proof
    fix lr assume "lr \<in> set (rws B1)"
    then obtain k where k: "k < length (rws B1)" "rws B1 ! k = lr"
      by (auto simp: in_set_conv_nth)
    with u1 lenB1 have "length (snd lr) = length (snd (rws S ! k))"
      by (auto simp: unchanged_outside_def)
    with lenS [of "rws S ! k"] k(1) lenB1 mn show "?m \<le> length (snd lr)" by simp
  qed
  from interp_loop_unchanged [OF interp rowsB1] have u2: "unchanged_outside {..<?m} B1 B2"
    by simp
  from m0 have "{?m - 1} \<subseteq> {..<?m}" by auto
  with u1 have "unchanged_outside {..<?m} S B1"
    by (rule unchanged_outside_mono)
  from this u2 have "unchanged_outside {..<?m} S B2"
    by (rule unchanged_outside_trans)
  moreover from mn m0 have "?n - 1 \<notin> {..<?m}" by simp
  ultimately have "col_at B2 (?n - 1) = col_at S (?n - 1)"
    by (rule col_at_unchanged)
  with Y have YS: "Y = col_at S (?n - 1)" by simp
  have "iloc_col S (- 1) = Inr Y"
    using n YS by (simp add: iloc_col_def py_index_last)
  moreover have "col_at S (?n - 1) = col_at F (length (columns T) - 4)"
  proof -
    from n nF colsF have "?n - 1 = length (columns T) - 4" "?n - 1 < length (columns F) - 3"
      by simp_all
    then show ?thesis
      by (simp add: col_at_def rwsS split_def)
  qed
  ultimately show ?thesis
    using F S YS by simp
qed

theorem target_untouched_witness:
  "preprocess_avg_NANs ex_raw [1, 2, 5] 1 = Inr (ex_feat, [(1, NaN), (2, Num 4), (5, Num 4)])
   \<and> wf_frame ex_raw
   \<and> loc ex_raw [1, 2, 5] = Inr ex_rows
   \<and> rename year_of_label (iloc_cols_upto ex_rows (- 3)) = Inr ex_sel
   \<and> iloc_col ex_sel (- 1) = Inr [(1, NaN), (2, Num 4), (5, Num 4)]
   \<and> [(1, NaN), (2, Num 4), (5, Num 4)] = col_at ex_rows (length (columns ex_raw) - 4)"
proof -
  have w: "wf_frame ex_raw"
    by (simp add: wf_frame_def ex_raw_def)
  from target_untouched [OF ex_run w] ex_steps(1,2) show ?thesis
    using ex_run w by simp
qed


subsection \<open>The value written to a row\<close>



lemma set_cell_labels [simp]: "map fst (rws (set_cell B c i v)) = map fst (rws B)"
  by (simp add: set_cell_def split_def)

lemma set_cell_length [simp]: "length (rws (set_cell B c i v)) = length (rws B)"
  by (simp add: set_cell_def)













lemma col_at_length [simp]: "length (col_at B c) = length (rws B)"
  by (simp add: col_at_def)









lemma loc_set_view_labels [simp]:
  "map fst (rws (loc_set_view m B ix vals)) = map fst (rws B)"
  by (simp add: loc_set_view_def split_def)

lemma loc_set_view_length [simp]: "length (rws (loc_set_view m B ix vals)) = length (rws B)"
  by (simp add: loc_set_view_def)














end
